theory Spec2Isabelle
  imports Complex_Main
begin

section \<open>JavaScript values\<close>

text \<open>
  The task record is whatever the HTTP client parsed from the response body, so it is
  modelled as a JavaScript value: \<open>undefined\<close>, \<open>null\<close>, a boolean, a number, a string,
  an array or an object. An object is the list of its own properties; the first binding of
  a name is the one that counts. A number is the real it denotes (a parsed JSON number is
  finite), and the program only ever tests a number for being zero.
\<close>

datatype jsval =
    JUndefined
  | JNull
  | JBool bool
  | JNum real
  | JStr string
  | JArr "jsval list"
  | JObj "(string \<times> jsval) list"

text \<open>
  The conversion to boolean behind \<open>!v\<close> and \<open>a || b\<close>: \<open>undefined\<close>, \<open>null\<close>,
  \<open>false\<close>, zero and the empty string are falsy, everything else (every array and every
  object, also the empty ones) is truthy.
\<close>

fun truthy :: "jsval \<Rightarrow> bool" where
  "truthy JUndefined = False"
| "truthy JNull = False"
| "truthy (JBool b) = b"
| "truthy (JNum r) = (r \<noteq> 0)"
| "truthy (JStr s) = (s \<noteq> [])"
| "truthy (JArr vs) = True"
| "truthy (JObj kvs) = True"

text \<open>
  Member access \<open>v.k\<close> for the property names this program reads (\<open>id\<close>, \<open>status\<close>,
  \<open>task_type\<close>, \<open>result\<close>, \<open>triage_decision\<close>, \<open>is_sufficient\<close>, \<open>detail\<close>): none of
  them is defined on a boolean, number, string or array, so only an object can answer with
  something other than \<open>undefined\<close>. On \<open>null\<close> and \<open>undefined\<close> JavaScript throws a
  TypeError; the source reaches a member access only on a value it has already tested
  truthy, or behind \<open>?.\<close>, and the functions below test in the same order, so \<open>getProp\<close>
  is never evaluated there on \<open>JNull\<close> or \<open>JUndefined\<close>.
\<close>

fun getProp :: "jsval \<Rightarrow> string \<Rightarrow> jsval" where
  "getProp (JObj kvs) k = (case map_of kvs k of None \<Rightarrow> JUndefined | Some v \<Rightarrow> v)"
| "getProp v k = JUndefined"

text \<open>Optional chaining \<open>v?.k\<close>: \<open>undefined\<close> when \<open>v\<close> is \<open>null\<close> or \<open>undefined\<close>.\<close>

definition optprop :: "jsval \<Rightarrow> string \<Rightarrow> jsval" where
  "optprop v k = (if v = JNull \<or> v = JUndefined then JUndefined else getProp v k)"


section \<open>The display state derived from a task record (utils/taskUtils.js)\<close>

record display_state =
  status :: string
  message :: string

text \<open>The last \<open>return\<close> of the function, reached by every path that returned nothing before.\<close>

definition fallback :: display_state where
  "fallback = \<lparr>status = ''loading'', message = ''Analysis in progress...''\<rparr>"

definition deriveTaskDisplayState :: "jsval \<Rightarrow> display_state" where
  "deriveTaskDisplayState t =
    (if \<not> truthy t then
       \<lparr>status = ''initializing'', message = ''Creating analysis task...''\<rparr>
     else if getProp t ''status'' = JStr ''finalized'' then
       \<lparr>status = ''success'', message = ''Analysis Complete!''\<rparr>
     else if getProp t ''status'' = JStr ''failed'' then
       \<lparr>status = ''error'', message = ''Analysis Failed. Check agent logs.''\<rparr>
     else if getProp t ''task_type'' = JStr ''GET_JOB_DETAILS'' then
       (if getProp t ''status'' = JStr ''pending'' \<or> getProp t ''status'' = JStr ''processing'' then
          \<lparr>status = ''loading'',
           message = ''Requesting initial details from on-premises agent...''\<rparr>
        else if getProp t ''status'' = JStr ''complete'' then
          (let triageDecision = optprop (getProp t ''result'') ''triage_decision'' in
           if \<not> truthy triageDecision then
             \<lparr>status = ''loading'',
              message = ''Initial data received. Performing AI triage...''\<rparr>
           else if getProp triageDecision ''is_sufficient'' = JBool True then
             \<lparr>status = ''loading'', message = ''Triage complete. Finalizing analysis...''\<rparr>
           else if getProp triageDecision ''is_sufficient'' = JBool False then
             \<lparr>status = ''loading'',
              message = ''Triage complete. Agent is now fetching detailed logs...''\<rparr>
           else fallback)
        else fallback)
     else fallback)"


section \<open>The job details page (pages/JobDetailsPage.jsx)\<close>

text \<open>
  The state of the component: its five state variables, and what its polling effect owns.
  \<open>intervalTask\<close> is the interval timer: \<open>None\<close> when no interval is set, otherwise the
  task record that the interval's callback closed over. \<open>inflight\<close> holds the polls that
  were sent and have not settled yet, each with the task id it asked for. The program
  keeps no such list and numbers nothing: \<open>issued\<close> (the polls sent so far, which also
  names each pending poll) and \<open>createCalls\<close> (the creation calls sent so far) are
  bookkeeping of the model, read by no transition.
\<close>

record page_state =
  job :: jsval
  task :: jsval
  isInitializing :: bool
  error :: jsval
  pollingError :: jsval
  intervalTask :: "jsval option"
  inflight :: "(nat \<times> jsval) list"
  issued :: nat
  createCalls :: nat

text \<open>The component as mounted: the initial values of the \<open>useState\<close> calls, no timer.\<close>

definition initialState :: page_state where
  "initialState =
     \<lparr>job = JNull, task = JNull, isInitializing = True, error = JNull, pollingError = JNull,
      intervalTask = None, inflight = [], issued = 0, createCalls = 0\<rparr>"

text \<open>The two statuses after which the record no longer changes.\<close>

definition isTerminal :: "jsval \<Rightarrow> bool" where
  "isTerminal t \<longleftrightarrow> getProp t ''status'' = JStr ''finalized'' \<or> getProp t ''status'' = JStr ''failed''"

text \<open>
  The body of the polling effect, run for the record \<open>t\<close>: it returns without a timer
  when there is no record or its status is terminal, and sets an interval otherwise.
\<close>

definition pollingEffect :: "jsval \<Rightarrow> jsval option" where
  "pollingEffect t =
     (if \<not> truthy t \<or> getProp t ''status'' = JStr ''finalized'' \<or> getProp t ''status'' = JStr ''failed''
      then None else Some t)"

text \<open>
  \<open>setTask(d)\<close> followed by the render it causes: the effect depends on \<open>task\<close>, so its
  cleanup clears the old interval and its body runs again for the new record. The call,
  the render and the effect are taken as one step.
\<close>

definition setTask :: "jsval \<Rightarrow> page_state \<Rightarrow> page_state" where
  "setTask d st = st\<lparr>task := d, intervalTask := pollingEffect d\<rparr>"

text \<open>
  What the HTTP client rejects with: an error object whose \<open>response\<close> is missing (the
  server did not answer) or carries the parsed body of the answer as \<open>data\<close>.
\<close>

datatype axios_error = NoResponse | ErrorResponse jsval

text \<open>\<open>err.response?.data?.detail || "An error occurred."\<close>\<close>

definition errorDetail :: "axios_error \<Rightarrow> jsval" where
  "errorDetail err =
     (let detail = (case err of NoResponse \<Rightarrow> JUndefined
                              | ErrorResponse d \<Rightarrow> optprop d ''detail'')
      in if truthy detail then detail else JStr ''An error occurred.'')"

text \<open>
  \<open>startAnalysisWorkflow\<close>, given how the job request and the creation request settle
  (\<open>Inl\<close> a rejection, \<open>Inr\<close> the body of the response). A rejected job request skips the
  creation call; every path ends in the \<open>finally\<close> block.
\<close>

definition startAnalysisWorkflow ::
    "axios_error + jsval \<Rightarrow> axios_error + jsval \<Rightarrow> page_state \<Rightarrow> page_state" where
  "startAnalysisWorkflow jobResponse taskResponse st =
     (let st1 = st\<lparr>isInitializing := True, error := JNull\<rparr> in
      case jobResponse of
        Inl err \<Rightarrow> st1\<lparr>error := errorDetail err, isInitializing := False\<rparr>
      | Inr jobData \<Rightarrow>
          (let st2 = st1\<lparr>job := jobData, createCalls := Suc (createCalls st1)\<rparr> in
           case taskResponse of
             Inl err \<Rightarrow> st2\<lparr>error := errorDetail err, isInitializing := False\<rparr>
           | Inr taskData \<Rightarrow> (setTask taskData st2)\<lparr>isInitializing := False\<rparr>))"

text \<open>
  What can happen to the page once it is mounted: the interval fires, or a pending poll
  settles. \<open>PollResolved n d\<close> is the poll numbered \<open>n\<close> answering with the body \<open>d\<close>,
  \<open>PollRejected n\<close> the same poll failing.
\<close>

datatype event = Tick | PollResolved nat jsval | PollRejected nat

text \<open>
  One event; \<open>None\<close> when the event cannot happen in that state (a cleared interval does
  not fire, a poll that is not pending does not settle). The interval's callback clears
  the polling error and sends the request for the id of the record it closed over, before
  it waits; the rest of the callback runs when the request settles, whether or not the
  interval that sent it still exists.
\<close>

fun step :: "event \<Rightarrow> page_state \<Rightarrow> page_state option" where
  "step Tick st =
     (case intervalTask st of
        None \<Rightarrow> None
      | Some t \<Rightarrow>
          Some (st\<lparr>pollingError := JNull,
                    inflight := inflight st @ [(issued st, getProp t ''id'')],
                    issued := Suc (issued st)\<rparr>))"
| "step (PollResolved n d) st =
     (if n \<in> set (map fst (inflight st))
      then Some (setTask d (st\<lparr>inflight := filter (\<lambda>p. fst p \<noteq> n) (inflight st)\<rparr>))
      else None)"
| "step (PollRejected n) st =
     (if n \<in> set (map fst (inflight st))
      then Some (st\<lparr>pollingError := JStr ''Connection to the server was lost. Retrying...'',
                     inflight := filter (\<lambda>p. fst p \<noteq> n) (inflight st)\<rparr>)
      else None)"

text \<open>A sequence of events, from left to right; \<open>None\<close> as soon as one cannot happen.\<close>

fun run :: "event list \<Rightarrow> page_state \<Rightarrow> page_state option" where
  "run [] st = Some st"
| "run (e # es) st = (case step e st of None \<Rightarrow> None | Some st' \<Rightarrow> run es st')"

fun isResolved :: "event \<Rightarrow> bool" where
  "isResolved (PollResolved n d) = True"
| "isResolved e = False"

fun isRejected :: "event \<Rightarrow> bool" where
  "isRejected (PollRejected n) = True"
| "isRejected e = False"


section \<open>Example inputs\<close>

text \<open>
  Records of one task as the server reports it over time, and the page after a workflow
  started well: the job was fetched, the task was created with status \<open>pending\<close>, and the
  polling effect has set its interval.
\<close>

abbreviation pendingTask :: jsval where
  "pendingTask \<equiv>
     JObj [(''id'', JNum 4), (''task_type'', JStr ''GET_JOB_DETAILS''),
           (''status'', JStr ''pending'')]"

abbreviation processingTask :: jsval where
  "processingTask \<equiv>
     JObj [(''id'', JNum 4), (''task_type'', JStr ''GET_JOB_DETAILS''),
           (''status'', JStr ''processing'')]"

abbreviation completeTask :: jsval where
  "completeTask \<equiv>
     JObj [(''id'', JNum 4), (''task_type'', JStr ''GET_JOB_DETAILS''),
           (''status'', JStr ''complete''), (''result'', JObj [])]"

abbreviation finalizedTask :: jsval where
  "finalizedTask \<equiv>
     JObj [(''id'', JNum 4), (''task_type'', JStr ''GET_JOB_DETAILS''),
           (''status'', JStr ''finalized''),
           (''result'',
            JObj [(''triage_decision'', JObj [(''is_sufficient'', JBool True)]),
                  (''ai_analysis'',
                   JObj [(''problem_summary'', JStr ''The backup ran out of disk space.''),
                         (''probable_cause'', JStr ''The retention period is too long.''),
                         (''recommended_action'', JStr ''Free space on the target.'')])])]"

abbreviation pollingPage :: page_state where
  "pollingPage \<equiv>
     startAnalysisWorkflow (Inr (JObj [(''job_id'', JNum 17)])) (Inr pendingTask) initialState"


section \<open>Properties of the derivation\<close>

lemma getProp_str_truthy: "getProp t k = JStr s \<Longrightarrow> truthy t"
  by (cases t) simp_all

text \<open>
  C6. A record whose \<open>status\<close> is \<open>finalized\<close> is displayed as \<open>success\<close>, whatever its
  other properties (\<open>task_type\<close>, \<open>result\<close>, the triage decision, the analysis) are.
\<close>

theorem derive_finalized_success:
  "getProp t ''status'' = JStr ''finalized'' \<Longrightarrow>
     deriveTaskDisplayState t = \<lparr>status = ''success'', message = ''Analysis Complete!''\<rparr>"
  by (simp add: deriveTaskDisplayState_def getProp_str_truthy)

theorem derive_finalized_success_witness:
  "getProp (JObj [(''id'', JNum 4), (''task_type'', JStr ''GET_JOB_DETAILS''),
               (''status'', JStr ''finalized''),
               (''result'', JObj [(''triage_decision'', JObj [(''is_sufficient'', JBool False)])])])
        ''status'' = JStr ''finalized''
   \<and> status (deriveTaskDisplayState
        (JObj [(''id'', JNum 4), (''task_type'', JStr ''GET_JOB_DETAILS''),
               (''status'', JStr ''finalized''),
               (''result'', JObj [(''triage_decision'', JObj [(''is_sufficient'', JBool False)])])]))
       = ''success''"
  using derive_finalized_success
    [of "JObj [(''id'', JNum 4), (''task_type'', JStr ''GET_JOB_DETAILS''),
               (''status'', JStr ''finalized''),
               (''result'', JObj [(''triage_decision'', JObj [(''is_sufficient'', JBool False)])])]"]
  by simp

text \<open>
  C7. The derived status is \<open>error\<close> exactly for the records whose \<open>status\<close> is
  \<open>failed\<close>: such a record is displayed as \<open>error\<close>, and no other input (an absent
  record, or a record with any other status) is.
\<close>

theorem derive_error_iff_failed:
  "status (deriveTaskDisplayState t) = ''error'' \<longleftrightarrow> getProp t ''status'' = JStr ''failed''"
proof
  assume "getProp t ''status'' = JStr ''failed''"
  then show "status (deriveTaskDisplayState t) = ''error''"
    by (simp add: deriveTaskDisplayState_def getProp_str_truthy)
next
  assume "status (deriveTaskDisplayState t) = ''error''"
  then show "getProp t ''status'' = JStr ''failed''"
    by (simp add: deriveTaskDisplayState_def fallback_def Let_def split: if_splits)
qed

theorem derive_error_iff_failed_witness:
  "status (deriveTaskDisplayState (JObj [(''id'', JNum 4), (''status'', JStr ''failed'')]))
     = ''error''
   \<and> status (deriveTaskDisplayState JNull) \<noteq> ''error''
   \<and> status (deriveTaskDisplayState (JObj [(''id'', JNum 4), (''status'', JStr ''processing'')]))
     \<noteq> ''error''"
  using derive_error_iff_failed [of "JObj [(''id'', JNum 4), (''status'', JStr ''failed'')]"]
    derive_error_iff_failed [of JNull]
    derive_error_iff_failed [of "JObj [(''id'', JNum 4), (''status'', JStr ''processing'')]"]
  by simp

text \<open>
  Of a record the derivation reads its truthiness, \<open>status\<close>, \<open>task_type\<close> and
  \<open>result?.triage_decision\<close>, and nothing else: records that agree there are displayed
  alike.
\<close>

lemma derive_reads_only:
  assumes "truthy t = truthy t'"
    and "getProp t ''status'' = getProp t' ''status''"
    and "getProp t ''task_type'' = getProp t' ''task_type''"
    and "optprop (getProp t ''result'') ''triage_decision''
           = optprop (getProp t' ''result'') ''triage_decision''"
  shows "deriveTaskDisplayState t = deriveTaskDisplayState t'"
  using assms by (simp add: deriveTaskDisplayState_def)

text \<open>
  C9. The derivation reads nothing but its argument, so it is a function of it: the same
  input (a record or an absent one) always yields the same display state.
\<close>

theorem derive_deterministic:
  "t = t' \<Longrightarrow> deriveTaskDisplayState t = deriveTaskDisplayState t'"
  by simp

theorem derive_deterministic_witness:
  "deriveTaskDisplayState (JObj [(''status'', JStr ''complete''), (''result'', JObj [])])
     = deriveTaskDisplayState (JObj [(''status'', JStr ''complete''), (''result'', JObj [])])
   \<and> deriveTaskDisplayState JNull = deriveTaskDisplayState JNull"
  using derive_deterministic
    [of "JObj [(''status'', JStr ''complete''), (''result'', JObj [])]"
        "JObj [(''status'', JStr ''complete''), (''result'', JObj [])]"]
    derive_deterministic [of JNull JNull]
  by simp

text \<open>
  C10. A \<open>GET_JOB_DETAILS\<close> record with status \<open>complete\<close> whose triage decision is
  present (truthy, as every object is) but whose \<open>is_sufficient\<close> is neither \<open>true\<close> nor
  \<open>false\<close> gets none of the three triage messages: the derivation falls through to the
  generic fallback.
\<close>

theorem derive_undecided_triage_fallback:
  assumes "getProp t ''task_type'' = JStr ''GET_JOB_DETAILS''"
    and "getProp t ''status'' = JStr ''complete''"
    and "truthy (optprop (getProp t ''result'') ''triage_decision'')"
    and "getProp (optprop (getProp t ''result'') ''triage_decision'') ''is_sufficient'' \<noteq> JBool True"
    and "getProp (optprop (getProp t ''result'') ''triage_decision'') ''is_sufficient'' \<noteq> JBool False"
  shows "deriveTaskDisplayState t
           = \<lparr>status = ''loading'', message = ''Analysis in progress...''\<rparr>"
  using assms
  by (simp add: deriveTaskDisplayState_def fallback_def Let_def getProp_str_truthy)

theorem derive_undecided_triage_fallback_witness:
  "deriveTaskDisplayState
     (JObj [(''id'', JNum 4), (''task_type'', JStr ''GET_JOB_DETAILS''),
            (''status'', JStr ''complete''), (''result'', JObj [(''triage_decision'', JObj [])])])
     = \<lparr>status = ''loading'', message = ''Analysis in progress...''\<rparr>"
  using derive_undecided_triage_fallback
    [of "JObj [(''id'', JNum 4), (''task_type'', JStr ''GET_JOB_DETAILS''),
               (''status'', JStr ''complete''),
               (''result'', JObj [(''triage_decision'', JObj [])])]"]
  by (simp add: optprop_def)

text \<open>
  C2, as stated, at a record of another task type: status \<open>complete\<close>, a result without
  a triage decision, and yet the message is the generic one, not the triage one.
\<close>

theorem derive_complete_no_triage_counterexample:
  "getProp (JObj [(''id'', JNum 4), (''task_type'', JStr ''GET_JOB_LOGS''),
               (''status'', JStr ''complete''), (''result'', JObj [])]) ''status''
     = JStr ''complete''
   \<and> optprop (getProp (JObj [(''id'', JNum 4), (''task_type'', JStr ''GET_JOB_LOGS''),
                           (''status'', JStr ''complete''), (''result'', JObj [])]) ''result'')
        ''triage_decision'' = JUndefined
   \<and> deriveTaskDisplayState
        (JObj [(''id'', JNum 4), (''task_type'', JStr ''GET_JOB_LOGS''),
               (''status'', JStr ''complete''), (''result'', JObj [])])
       = \<lparr>status = ''loading'', message = ''Analysis in progress...''\<rparr>
   \<and> deriveTaskDisplayState
        (JObj [(''id'', JNum 4), (''task_type'', JStr ''GET_JOB_LOGS''),
               (''status'', JStr ''complete''), (''result'', JObj [])])
       \<noteq> \<lparr>status = ''loading'', message = ''Initial data received. Performing AI triage...''\<rparr>"
  by (simp add: deriveTaskDisplayState_def fallback_def optprop_def)

text \<open>
  C2, amended. The triage message is given under the \<open>GET_JOB_DETAILS\<close> guard only: a
  record of that type with status \<open>complete\<close> and no triage decision is displayed as
  \<open>loading\<close> with the message that the triage is being performed; a record of any other
  type with status \<open>complete\<close>, with or without a triage decision, is displayed as
  \<open>loading\<close> with the generic message.
\<close>

theorem derive_complete_no_triage:
  assumes "getProp t ''status'' = JStr ''complete''"
  shows "(getProp t ''task_type'' = JStr ''GET_JOB_DETAILS''
            \<and> \<not> truthy (optprop (getProp t ''result'') ''triage_decision'')
          \<longrightarrow> deriveTaskDisplayState t
                = \<lparr>status = ''loading'',
                   message = ''Initial data received. Performing AI triage...''\<rparr>)
       \<and> (getProp t ''task_type'' \<noteq> JStr ''GET_JOB_DETAILS''
          \<longrightarrow> deriveTaskDisplayState t
                = \<lparr>status = ''loading'', message = ''Analysis in progress...''\<rparr>)"
  using assms
  by (simp add: deriveTaskDisplayState_def fallback_def Let_def getProp_str_truthy)

text \<open>
  Both halves at a record: one of type \<open>GET_JOB_DETAILS\<close> without a triage decision, and
  one of another type that carries a triage decision.
\<close>

theorem derive_complete_no_triage_witness:
  "deriveTaskDisplayState
     (JObj [(''id'', JNum 4), (''task_type'', JStr ''GET_JOB_DETAILS''),
            (''status'', JStr ''complete''), (''result'', JObj [])])
     = \<lparr>status = ''loading'', message = ''Initial data received. Performing AI triage...''\<rparr>
   \<and> deriveTaskDisplayState
     (JObj [(''id'', JNum 5), (''task_type'', JStr ''GET_JOB_LOGS''),
            (''status'', JStr ''complete''),
            (''result'', JObj [(''triage_decision'', JObj [(''is_sufficient'', JBool False)])])])
     = \<lparr>status = ''loading'', message = ''Analysis in progress...''\<rparr>"
  using derive_complete_no_triage
    [of "JObj [(''id'', JNum 4), (''task_type'', JStr ''GET_JOB_DETAILS''),
               (''status'', JStr ''complete''), (''result'', JObj [])]"]
    derive_complete_no_triage
    [of "JObj [(''id'', JNum 5), (''task_type'', JStr ''GET_JOB_LOGS''),
               (''status'', JStr ''complete''),
               (''result'', JObj [(''triage_decision'', JObj [(''is_sufficient'', JBool False)])])]"]
  by (simp add: optprop_def)


section \<open>Properties of the page\<close>

subsection \<open>What single events and runs leave alone\<close>

lemma run_append:
  "run (xs @ ys) st = (case run xs st of None \<Rightarrow> None | Some s \<Rightarrow> run ys s)"
  by (induction xs arbitrary: st) (auto split: option.splits)

lemma step_frame:
  "step e st = Some st' \<Longrightarrow>
     job st' = job st \<and> error st' = error st \<and> isInitializing st' = isInitializing st
     \<and> createCalls st' = createCalls st"
  by (cases e) (auto simp: setTask_def split: option.splits if_splits)

lemma run_frame:
  "run evs st = Some st' \<Longrightarrow>
     job st' = job st \<and> error st' = error st \<and> isInitializing st' = isInitializing st
     \<and> createCalls st' = createCalls st"
proof (induction evs arbitrary: st)
  case Nil
  then show ?case by simp
next
  case (Cons e evs)
  then obtain s where s: "step e st = Some s" and r: "run evs s = Some st'"
    by (auto split: option.splits)
  from Cons.IH [OF r] step_frame [OF s] show ?case by simp
qed

lemma step_pollingError_null:
  "step e st = Some st' \<Longrightarrow> \<not> isRejected e \<Longrightarrow> pollingError st = JNull \<Longrightarrow>
     pollingError st' = JNull"
  by (cases e) (auto simp: setTask_def split: option.splits if_splits)

lemma run_pollingError_null:
  "run evs st = Some st' \<Longrightarrow> \<forall>e\<in>set evs. \<not> isRejected e \<Longrightarrow> pollingError st = JNull \<Longrightarrow>
     pollingError st' = JNull"
proof (induction evs arbitrary: st)
  case Nil
  then show ?case by simp
next
  case (Cons e evs)
  then obtain s where s: "step e st = Some s" and r: "run evs s = Some st'"
    by (auto split: option.splits)
  from step_pollingError_null [OF s] Cons.prems have "pollingError s = JNull" by simp
  with Cons.IH [OF r] Cons.prems show ?case by simp
qed

lemma step_Tick_pollingError: "step Tick st = Some st' \<Longrightarrow> pollingError st' = JNull"
  by (auto split: option.splits)

lemma step_PollResolved_task:
  "step (PollResolved n d) st = Some st' \<Longrightarrow>
     task st' = d \<and> intervalTask st' = pollingEffect d \<and> pollingError st' = pollingError st
     \<and> issued st' = issued st"
  by (auto simp: setTask_def split: if_splits)

lemma step_PollRejected_frame:
  "step (PollRejected n) st = Some st' \<Longrightarrow>
     task st' = task st \<and> intervalTask st' = intervalTask st \<and> issued st' = issued st
     \<and> pollingError st' = JStr ''Connection to the server was lost. Retrying...''"
  by (auto split: if_splits)

lemma pollingEffect_terminal: "isTerminal d \<Longrightarrow> pollingEffect d = None"
  by (auto simp: isTerminal_def pollingEffect_def)

lemma step_stopped:
  "step e st = Some st' \<Longrightarrow> intervalTask st = None \<Longrightarrow> \<not> isResolved e \<Longrightarrow>
     e \<noteq> Tick \<and> issued st' = issued st \<and> task st' = task st \<and> intervalTask st' = None"
  by (cases e) (auto split: if_splits)

lemma run_stopped:
  "run evs st = Some st' \<Longrightarrow> intervalTask st = None \<Longrightarrow> \<forall>e\<in>set evs. \<not> isResolved e \<Longrightarrow>
     Tick \<notin> set evs \<and> issued st' = issued st \<and> task st' = task st \<and> intervalTask st' = None"
proof (induction evs arbitrary: st)
  case Nil
  then show ?case by simp
next
  case (Cons e evs)
  then obtain s where s: "step e st = Some s" and r: "run evs s = Some st'"
    by (auto split: option.splits)
  from step_stopped [OF s] Cons.prems
  have h: "e \<noteq> Tick \<and> issued s = issued st \<and> task s = task st \<and> intervalTask s = None"
    by simp
  with Cons.IH [OF r] Cons.prems show ?case by auto
qed

subsection \<open>The polling tick\<close>

text \<open>
  C8, amended. A tick whose fetch succeeds: the interval fires in \<open>st\<close> and sends the
  poll numbered \<open>issued st\<close>; other events \<open>evs\<close> may happen while it is pending; then
  it answers with the record \<open>d\<close>. The callback clears the polling error when it starts,
  before the request is sent, and the success itself leaves the polling error as it finds
  it: so every error reported before the tick is cleared, and none is on display after the
  success unless another poll failed while this one was pending. The cached record
  afterwards is \<open>d\<close> itself, whatever was cached before, and the interval is the one the
  effect sets for \<open>d\<close>; the job, the fatal error and the initializing flag are as they
  were, and no creation call was made.
\<close>

theorem poll_success_replaces_record:
  assumes "step Tick st = Some s1"
    and "run evs s1 = Some s2"
    and "step (PollResolved (issued st) d) s2 = Some st'"
  shows "pollingError s1 = JNull
         \<and> pollingError st' = pollingError s2
         \<and> ((\<forall>e\<in>set evs. \<not> isRejected e) \<longrightarrow> pollingError st' = JNull)
         \<and> task st' = d \<and> intervalTask st' = pollingEffect d
         \<and> job st' = job st \<and> error st' = error st
         \<and> isInitializing st' = isInitializing st \<and> createCalls st' = createCalls st"
proof -
  from step_Tick_pollingError [OF assms(1)] have c: "pollingError s1 = JNull" .
  have "pollingError s2 = JNull" if "\<forall>e\<in>set evs. \<not> isRejected e"
    using run_pollingError_null [OF assms(2) that c] .
  moreover from step_frame [OF assms(1)] run_frame [OF assms(2)] step_frame [OF assms(3)]
  have "job st' = job st \<and> error st' = error st
         \<and> isInitializing st' = isInitializing st \<and> createCalls st' = createCalls st"
    by simp
  ultimately show ?thesis
    using c step_PollResolved_task [OF assms(3)] by simp
qed

text \<open>
  C4. A tick whose fetch fails: handling the failure leaves the cached record and the
  interval exactly as they were and reports the transient error; the job, the fatal error
  and the initializing flag are untouched. When nothing else happened between the start of
  the tick and the failure, the record and the interval are those from before the tick,
  the interval is still set and the next tick can fire.
\<close>

theorem poll_failure_keeps_record:
  assumes "run (Tick # evs) st = Some st2"
    and "step (PollRejected (issued st)) st2 = Some st3"
  shows "task st3 = task st2 \<and> intervalTask st3 = intervalTask st2
         \<and> pollingError st3 = JStr ''Connection to the server was lost. Retrying...''
         \<and> job st3 = job st \<and> error st3 = error st
         \<and> isInitializing st3 = isInitializing st \<and> createCalls st3 = createCalls st
         \<and> (evs = [] \<longrightarrow> task st3 = task st \<and> intervalTask st3 = intervalTask st
                          \<and> intervalTask st3 \<noteq> None \<and> step Tick st3 \<noteq> None)"
proof -
  from run_frame [OF assms(1)] step_frame [OF assms(2)]
  have f: "job st3 = job st \<and> error st3 = error st
         \<and> isInitializing st3 = isInitializing st \<and> createCalls st3 = createCalls st"
    by simp
  have u: "task st3 = task st \<and> intervalTask st3 = intervalTask st
                          \<and> intervalTask st3 \<noteq> None \<and> step Tick st3 \<noteq> None" if "evs = []"
    using assms that by (auto split: option.splits if_splits)
  from step_PollRejected_frame [OF assms(2)] f u show ?thesis
    by blast
qed

subsection \<open>Terminal records\<close>

text \<open>
  C3, amended. Once a record of terminal status is applied, by a poll that answers with it
  or by the creation call that returns it, the interval is cleared and no tick can fire;
  for as long as no further response is applied, no timer or failure event changes that:
  the events that do happen contain no tick, the number of polls sent stays what it was,
  and the terminal record stays cached.
\<close>

theorem terminal_record_stops_polling:
  assumes "step (PollResolved n d) st = Some st1
           \<or> st1 = startAnalysisWorkflow (Inr j) (Inr d) st"
    and "isTerminal d"
    and "run evs st1 = Some st2"
    and "\<forall>e\<in>set evs. \<not> isResolved e"
  shows "step Tick st1 = None \<and> Tick \<notin> set evs \<and> issued st2 = issued st1
         \<and> task st2 = d \<and> intervalTask st2 = None \<and> step Tick st2 = None"
proof -
  from assms(1) have "task st1 = d \<and> intervalTask st1 = pollingEffect d"
  proof
    assume "step (PollResolved n d) st = Some st1"
    from step_PollResolved_task [OF this] show ?thesis by simp
  next
    assume "st1 = startAnalysisWorkflow (Inr j) (Inr d) st"
    then show ?thesis by (simp add: startAnalysisWorkflow_def setTask_def)
  qed
  with pollingEffect_terminal [OF assms(2)]
  have a: "task st1 = d \<and> intervalTask st1 = None" by simp
  with run_stopped [OF assms(3) _ assms(4)] show ?thesis by simp
qed

subsection \<open>Overlapping polls\<close>

text \<open>
  C1, amended. With the interval set, two ticks send the polls R1 (numbered \<open>issued st\<close>)
  and R2 (numbered \<open>Suc (issued st)\<close>). Responses are applied in the order they arrive,
  each replacing the cached record: when R2's response is applied first the cached record
  is R2's; when R1's response arrives after it, it is applied over it and the cached
  record is R1's; when the responses arrive in the order of their requests, the final
  record is R2's.
\<close>

theorem responses_applied_in_arrival_order:
  assumes "intervalTask st = Some t"
  shows "map_option task
           (run [Tick, Tick, PollResolved (Suc (issued st)) d2] st) = Some d2
       \<and> map_option task
           (run [Tick, Tick, PollResolved (Suc (issued st)) d2, PollResolved (issued st) d1] st)
          = Some d1
       \<and> map_option task
           (run [Tick, Tick, PollResolved (issued st) d1, PollResolved (Suc (issued st)) d2] st)
          = Some d2"
  using assms by (simp add: setTask_def)

subsection \<open>A failed start\<close>

text \<open>
  C5. The job request succeeds and the creation call is rejected with \<open>err\<close>. On the page
  as mounted this leaves a truthy fatal error (the detail of the rejection, or the default
  text), the initializing flag off, no task record, no interval and no pending poll, after
  exactly one creation call; no timer or network event can happen in that state, so no
  poll is ever sent and nothing calls the creation again. From any state \<open>st\<close>, a failed
  start stores no record, touches no interval, sends no poll and makes one creation call.
\<close>

theorem failed_creation_starts_nothing:
  "error (startAnalysisWorkflow (Inr j) (Inl err) initialState) = errorDetail err
   \<and> truthy (error (startAnalysisWorkflow (Inr j) (Inl err) initialState))
   \<and> \<not> isInitializing (startAnalysisWorkflow (Inr j) (Inl err) initialState)
   \<and> task (startAnalysisWorkflow (Inr j) (Inl err) initialState) = JNull
   \<and> intervalTask (startAnalysisWorkflow (Inr j) (Inl err) initialState) = None
   \<and> inflight (startAnalysisWorkflow (Inr j) (Inl err) initialState) = []
   \<and> issued (startAnalysisWorkflow (Inr j) (Inl err) initialState) = 0
   \<and> createCalls (startAnalysisWorkflow (Inr j) (Inl err) initialState) = 1
   \<and> (\<forall>e. step e (startAnalysisWorkflow (Inr j) (Inl err) initialState) = None)
   \<and> task (startAnalysisWorkflow (Inr j) (Inl err) st) = task st
   \<and> intervalTask (startAnalysisWorkflow (Inr j) (Inl err) st) = intervalTask st
   \<and> issued (startAnalysisWorkflow (Inr j) (Inl err) st) = issued st
   \<and> createCalls (startAnalysisWorkflow (Inr j) (Inl err) st) = Suc (createCalls st)"
proof -
  let ?s = "startAnalysisWorkflow (Inr j) (Inl err) initialState"
  have t: "truthy (errorDetail err)"
    by (simp add: errorDetail_def Let_def)
  have s: "?s = initialState\<lparr>job := j, createCalls := 1, error := errorDetail err,
                                isInitializing := False\<rparr>"
    by (simp add: startAnalysisWorkflow_def initialState_def)
  have n: "step e ?s = None" for e
    by (cases e) (simp_all add: startAnalysisWorkflow_def initialState_def)
  from n t show ?thesis
    by (simp add: s initialState_def) (simp add: startAnalysisWorkflow_def)
qed


text \<open>The definitions a concrete run unfolds to.\<close>

lemmas run_defs = startAnalysisWorkflow_def initialState_def setTask_def pollingEffect_def

text \<open>
  An instance with an error on display and a second tick fired while the first poll is
  pending.
\<close>

theorem poll_success_replaces_record_witness:
  "step Tick
     (pollingPage\<lparr>pollingError := JStr ''Connection to the server was lost. Retrying...''\<rparr>)
     \<noteq> None
   \<and> task (the (run [Tick, Tick, PollResolved 0 processingTask]
        (pollingPage\<lparr>pollingError := JStr ''Connection to the server was lost. Retrying...''\<rparr>)))
       = processingTask
   \<and> pollingError (the (run [Tick, Tick, PollResolved 0 processingTask]
        (pollingPage\<lparr>pollingError := JStr ''Connection to the server was lost. Retrying...''\<rparr>)))
       = JNull"
  using poll_success_replaces_record
    [of "pollingPage\<lparr>pollingError := JStr ''Connection to the server was lost. Retrying...''\<rparr>"
        "the (step Tick
          (pollingPage\<lparr>pollingError := JStr ''Connection to the server was lost. Retrying...''\<rparr>))"
        "[Tick]"
        "the (run [Tick, Tick]
          (pollingPage\<lparr>pollingError := JStr ''Connection to the server was lost. Retrying...''\<rparr>))"
        processingTask
        "the (run [Tick, Tick, PollResolved 0 processingTask]
          (pollingPage\<lparr>pollingError := JStr ''Connection to the server was lost. Retrying...''\<rparr>))"]
  by (simp add: run_defs)

text \<open>
  C8, as stated, on a run from the example page. Two ticks fire before either poll
  answers; the second poll fails and the warning is reported; then the first poll answers
  and its record is applied: the fetch of that tick succeeded, and the warning reported
  before the success is still on display.
\<close>

theorem poll_success_replaces_record_counterexample:
  "map_option task
     (run [Tick, Tick, PollRejected 1, PollResolved 0 processingTask] pollingPage)
     = Some processingTask
   \<and> map_option pollingError
       (run [Tick, Tick, PollRejected 1, PollResolved 0 processingTask] pollingPage)
      = Some (JStr ''Connection to the server was lost. Retrying...'')
   \<and> JStr ''Connection to the server was lost. Retrying...'' \<noteq> JNull"
  by (simp add: run_defs)

theorem poll_failure_keeps_record_witness:
  "run [Tick] pollingPage \<noteq> None
   \<and> step (PollRejected 0) (the (run [Tick] pollingPage)) \<noteq> None
   \<and> task (the (step (PollRejected 0) (the (run [Tick] pollingPage)))) = pendingTask
   \<and> intervalTask (the (step (PollRejected 0) (the (run [Tick] pollingPage)))) = Some pendingTask
   \<and> pollingError (the (step (PollRejected 0) (the (run [Tick] pollingPage))))
       = JStr ''Connection to the server was lost. Retrying...''"
  using poll_failure_keeps_record
    [of "[]" pollingPage "the (run [Tick] pollingPage)"
        "the (step (PollRejected 0) (the (run [Tick] pollingPage)))"]
  by (simp add: run_defs)

theorem terminal_record_stops_polling_witness:
  "run [Tick, Tick] pollingPage \<noteq> None
   \<and> step (PollResolved 1 finalizedTask) (the (run [Tick, Tick] pollingPage)) \<noteq> None
   \<and> isTerminal finalizedTask
   \<and> run [PollRejected 0]
        (the (step (PollResolved 1 finalizedTask) (the (run [Tick, Tick] pollingPage)))) \<noteq> None
   \<and> issued (the (run [PollRejected 0]
        (the (step (PollResolved 1 finalizedTask) (the (run [Tick, Tick] pollingPage)))))) = 2
   \<and> step Tick (the (run [PollRejected 0]
        (the (step (PollResolved 1 finalizedTask) (the (run [Tick, Tick] pollingPage)))))) = None"
  using terminal_record_stops_polling
    [of 1 finalizedTask "the (run [Tick, Tick] pollingPage)"
        "the (step (PollResolved 1 finalizedTask) (the (run [Tick, Tick] pollingPage)))"
        JNull "[PollRejected 0]"
        "the (run [PollRejected 0]
           (the (step (PollResolved 1 finalizedTask) (the (run [Tick, Tick] pollingPage)))))"]
  by (simp add: run_defs isTerminal_def)

text \<open>
  C3, as stated, on a run from the example page. Two ticks fire before either poll
  answers; the second poll answers \<open>finalized\<close> and is applied, with two polls sent so
  far; then the first poll answers \<open>processing\<close>, is applied over it, and the interval is
  set again: a third poll is sent after a terminal record was applied.
\<close>

theorem terminal_record_stops_polling_counterexample:
  "map_option task (run [Tick, Tick, PollResolved 1 finalizedTask] pollingPage)
     = Some finalizedTask
   \<and> isTerminal finalizedTask
   \<and> map_option issued (run [Tick, Tick, PollResolved 1 finalizedTask] pollingPage) = Some 2
   \<and> map_option issued
       (run [Tick, Tick, PollResolved 1 finalizedTask, PollResolved 0 processingTask, Tick]
          pollingPage) = Some 3"
  by (simp add: run_defs isTerminal_def)

theorem responses_applied_in_arrival_order_witness:
  "intervalTask pollingPage = Some pendingTask
   \<and> map_option task
       (run [Tick, Tick, PollResolved 1 completeTask, PollResolved 0 processingTask] pollingPage)
      = Some processingTask"
  using responses_applied_in_arrival_order
    [of pollingPage pendingTask completeTask processingTask]
  by (simp add: run_defs)

text \<open>
  C1, as stated, on a run from the example page: R2's response (\<open>complete\<close>) is applied
  before R1's response (\<open>processing\<close>) arrives, and the finally cached record is R1's.
\<close>

theorem stale_response_counterexample:
  "map_option task (run [Tick, Tick, PollResolved 1 completeTask] pollingPage)
     = Some completeTask
   \<and> map_option task
       (run [Tick, Tick, PollResolved 1 completeTask, PollResolved 0 processingTask] pollingPage)
      = Some processingTask
   \<and> processingTask \<noteq> completeTask"
  by (simp add: run_defs)

theorem failed_creation_starts_nothing_witness:
  "error (startAnalysisWorkflow (Inr (JObj [(''job_id'', JNum 17)]))
            (Inl (ErrorResponse (JObj [(''detail'', JStr ''Job not found'')]))) initialState)
     = JStr ''Job not found''
   \<and> task (startAnalysisWorkflow (Inr (JObj [(''job_id'', JNum 17)]))
            (Inl (ErrorResponse (JObj [(''detail'', JStr ''Job not found'')]))) initialState)
     = JNull
   \<and> step Tick (startAnalysisWorkflow (Inr (JObj [(''job_id'', JNum 17)]))
            (Inl (ErrorResponse (JObj [(''detail'', JStr ''Job not found'')]))) initialState)
     = None"
  using failed_creation_starts_nothing
    [of "JObj [(''job_id'', JNum 17)]"
        "ErrorResponse (JObj [(''detail'', JStr ''Job not found'')])" initialState]
  by (simp add: errorDetail_def optprop_def)

end
